theory Spec2Isabelle
  imports Complex_Main
begin

section \<open>The Simon game engine (src/simon.js, closure simonGame)\<close>

text \<open>
  The engine is the closure \<^verbatim>\<open>simonGame\<close> with its inner closure \<^verbatim>\<open>gameState\<close>.
  Its variables are \<^verbatim>\<open>state\<close> (in gameState), \<^verbatim>\<open>round\<close>, \<^verbatim>\<open>pressN\<close>,
  \<^verbatim>\<open>strict\<close> and \<^verbatim>\<open>sequence\<close>; every function mutates them in place. Here
  they are the fields of one record and every function returns the updated record.

  JavaScript numbers are modelled as \<open>int\<close>: state codes, the two counters and the button
  indices are integers in the source's documentation, and no counter leaves the range in
  which a double is exact. The field for \<^verbatim>\<open>round\<close> is called \<open>round_n\<close>, since
  \<open>round\<close> is the rounding function of the library.
\<close>

subsection \<open>State codes (gameState.states)\<close>

text \<open>
  The code of \<^verbatim>\<open>states.start\<close> is called \<open>start_code\<close>, since \<open>start\<close> is the
  engine's function below.
\<close>

definition powerOff :: int where "powerOff = 0"
definition powerOn :: int where "powerOn = 1"
definition start_code :: int where "start_code = 2"
definition addRandom :: int where "addRandom = 3"
definition comDemo :: int where "comDemo = 4"
definition playerSequence :: int where "playerSequence = 5"
definition mistake :: int where "mistake = 6"
definition allCorrect :: int where "allCorrect = 7"
definition win :: int where "win = 8"

subsection \<open>Engine data\<close>

record game =
  state :: int
  round_n :: int
  pressN :: int
  strict :: bool
  sequence :: "int list"

definition MAXROUND :: int where "MAXROUND = 20"

text \<open>The values of the closure's variables when the script has been loaded.\<close>

definition initial :: game where
  "initial = \<lparr>state = powerOff, round_n = 0, pressN = 0, strict = False, sequence = []\<rparr>"

subsection \<open>gameState.getState and gameState.setState\<close>

definition getState :: "game \<Rightarrow> int" where
  "getState g = state g"

text \<open>
  \<^verbatim>\<open>setState\<close> logs its argument and assigns it when \<^verbatim>\<open>n >= 0 && n <= states.win\<close>.
  The log line does not touch the engine's data and is left out.
\<close>

definition setState :: "int \<Rightarrow> game \<Rightarrow> game" where
  "setState n g = (if 0 \<le> n \<and> n \<le> win then g\<lparr>state := n\<rparr> else g)"

subsection \<open>nextRound\<close>

text \<open>
  \<^verbatim>\<open>Math.floor(Math.random() * 3.99)\<close>: the value \<open>r\<close> returned by
  \<^verbatim>\<open>Math.random()\<close> is a parameter, a real number.
\<close>

definition randomSignal :: "real \<Rightarrow> int" where
  "randomSignal r = \<lfloor>r * (399 / 100)\<rfloor>"

definition nextRound :: "real \<Rightarrow> game \<Rightarrow> game" where
  "nextRound r g =
     (let g1 = g\<lparr>pressN := 0\<rparr> in
      if round_n g1 + 1 > MAXROUND then setState win g1
      else setState comDemo
             (g1\<lparr>round_n := round_n g1 + 1,
                 sequence := sequence g1 @ [randomSignal r]\<rparr>))"

subsection \<open>press\<close>

text \<open>
  Reading a JavaScript array outside its bounds gives \<^verbatim>\<open>undefined\<close>, here \<open>None\<close>.
  A number is never loosely equal to \<^verbatim>\<open>undefined\<close>, so \<^verbatim>\<open>btnI != sequence[i]\<close>
  is true there.
\<close>

definition js_index :: "int list \<Rightarrow> int \<Rightarrow> int option" where
  "js_index xs i = (if 0 \<le> i \<and> i < int (length xs) then Some (xs ! nat i) else None)"

text \<open>The pair is the returned boolean and the engine after the call.\<close>

definition press :: "int \<Rightarrow> game \<Rightarrow> bool \<times> game" where
  "press btnI g =
     (let s = getState g in
      if \<not> (s = powerOn \<or> s = playerSequence) then (False, g)
      else if s \<noteq> playerSequence then (True, g)
      else
        (let g1 = g\<lparr>pressN := pressN g + 1\<rparr> in
         if Some btnI \<noteq> js_index (sequence g1) (pressN g1 - 1)
         then (True, setState mistake (g1\<lparr>pressN := 0\<rparr>))
         else if pressN g1 = int (length (sequence g1))
         then (True, setState allCorrect g1)
         else (True, g1)))"

subsection \<open>reset, start, togglePower, toggleStrict\<close>

definition reset :: "game \<Rightarrow> game" where
  "reset g = g\<lparr>sequence := [], round_n := 0, pressN := 0\<rparr>"

definition start :: "real \<Rightarrow> game \<Rightarrow> game" where
  "start r g = nextRound r (reset g)"

definition togglePower :: "game \<Rightarrow> game" where
  "togglePower g =
     (if getState g = powerOff then reset (setState powerOn g)
      else (setState powerOff g)\<lparr>strict := False\<rparr>)"

definition toggleStrict :: "game \<Rightarrow> game" where
  "toggleStrict g = g\<lparr>strict := \<not> strict g\<rparr>"

subsection \<open>Sequences of calls to the public operations\<close>

datatype op =
  Start real | NextRound real | Press int | TogglePower | ToggleStrict | SetState int

fun step :: "game \<Rightarrow> op \<Rightarrow> game" where
  "step g (Start r) = start r g"
| "step g (NextRound r) = nextRound r g"
| "step g (Press b) = snd (press b g)"
| "step g TogglePower = togglePower g"
| "step g ToggleStrict = toggleStrict g"
| "step g (SetState n) = setState n g"

definition run :: "game \<Rightarrow> op list \<Rightarrow> game" where
  "run g ops = foldl step g ops"

subsection \<open>Invariants of the engine data\<close>

definition len_round :: "game \<Rightarrow> bool" where
  "len_round g \<longleftrightarrow> int (length (sequence g)) = round_n g"

definition pressN_ok :: "game \<Rightarrow> bool" where
  "pressN_ok g \<longleftrightarrow> 0 \<le> pressN g \<and> pressN g \<le> int (length (sequence g))"

section \<open>Basic facts\<close>

lemmas state_codes =
  powerOff_def powerOn_def start_code_def addRandom_def comDemo_def
  playerSequence_def mistake_def allCorrect_def win_def

lemma setState_fields [simp]:
  "round_n (setState n g) = round_n g"
  "pressN (setState n g) = pressN g"
  "strict (setState n g) = strict g"
  "sequence (setState n g) = sequence g"
  by (simp_all add: setState_def)

lemma setState_code [simp]:
  "state (setState powerOff g) = powerOff"
  "state (setState powerOn g) = powerOn"
  "state (setState comDemo g) = comDemo"
  "state (setState mistake g) = mistake"
  "state (setState allCorrect g) = allCorrect"
  "state (setState win g) = win"
  by (simp_all add: setState_def state_codes)

section \<open>togglePower\<close>

text \<open>
  Claim C6. \<^verbatim>\<open>togglePower()\<close> in state PowerOff goes to PowerOn, empties the sequence,
  sets round and press counter to 0 and keeps the strict flag. In any other state it goes
  to PowerOff, sets the strict flag to false and keeps round, sequence and press counter.
\<close>

theorem togglePower_cases:
  "(state g = powerOff \<longrightarrow>
      togglePower g =
        \<lparr>state = powerOn, round_n = 0, pressN = 0, strict = strict g, sequence = []\<rparr>)
   \<and> (state g \<noteq> powerOff \<longrightarrow>
      togglePower g =
        \<lparr>state = powerOff, round_n = round_n g, pressN = pressN g, strict = False,
         sequence = sequence g\<rparr>)"
  by (simp add: togglePower_def getState_def reset_def setState_def state_codes)

theorem togglePower_cases_witness:
  "state initial = powerOff
   \<and> togglePower initial =
       \<lparr>state = powerOn, round_n = 0, pressN = 0, strict = False, sequence = []\<rparr>
   \<and> state (initial\<lparr>state := comDemo, round_n := 1, strict := True, sequence := [2]\<rparr>)
       \<noteq> powerOff
   \<and> togglePower (initial\<lparr>state := comDemo, round_n := 1, strict := True, sequence := [2]\<rparr>) =
       \<lparr>state = powerOff, round_n = 1, pressN = 0, strict = False, sequence = [2]\<rparr>"
  using togglePower_cases [of initial]
    togglePower_cases [of "initial\<lparr>state := comDemo, round_n := 1, strict := True, sequence := [2]\<rparr>"]
  by (simp add: initial_def state_codes)

section \<open>setState\<close>

text \<open>
  Claim C8. For every argument \<open>n\<close> outside the range of state codes 0 to 8,
  \<^verbatim>\<open>setState(n)\<close> leaves the engine as it is (and returns normally, as every call
  of the total function does); for every \<open>n\<close> inside the range, it sets the state to
  \<open>n\<close> and changes nothing else.
\<close>

theorem setState_range:
  "((n < 0 \<or> 8 < n) \<longrightarrow> setState n g = g)
   \<and> ((0 \<le> n \<and> n \<le> 8) \<longrightarrow> setState n g = g\<lparr>state := n\<rparr>)"
  by (simp add: setState_def win_def)

theorem setState_range_witness:
  "((9::int) < 0 \<or> (8::int) < 9) \<and> setState 9 initial = initial
   \<and> (- 1 < (0::int) \<or> (8::int) < - 1) \<and> setState (- 1) initial = initial
   \<and> ((0::int) \<le> 5 \<and> (5::int) \<le> 8) \<and> setState 5 initial = initial\<lparr>state := 5\<rparr>"
  using setState_range [of 9 initial] setState_range [of "- 1" initial]
    setState_range [of 5 initial]
  by simp

section \<open>start\<close>

text \<open>
  Claim C10. \<^verbatim>\<open>start()\<close> from any engine value whatsoever, whatever its state, gives
  state ComDemo (never Win), round 1, a sequence of exactly one element and press counter 0;
  the strict flag is kept. No hypothesis on the state: there is no power guard.
\<close>

theorem start_any_state:
  "start r g =
     \<lparr>state = comDemo, round_n = 1, pressN = 0, strict = strict g,
      sequence = [randomSignal r]\<rparr>
   \<and> state (start r g) \<noteq> win
   \<and> length (sequence (start r g)) = 1"
  by (simp add: start_def reset_def nextRound_def setState_def MAXROUND_def state_codes)

theorem start_any_state_witness:
  "start (1 / 2) (initial\<lparr>state := win, round_n := 20, pressN := 3\<rparr>) =
     \<lparr>state = 4, round_n = 1, pressN = 0, strict = False, sequence = [1]\<rparr>"
  using start_any_state [of "1 / 2" "initial\<lparr>state := win, round_n := 20, pressN := 3\<rparr>"]
  by (simp add: initial_def randomSignal_def comDemo_def)

section \<open>press\<close>

text \<open>
  Claim C3. For every state and every signal, \<^verbatim>\<open>press\<close> returns true exactly when
  the state is PowerOn or PlayerSequence; and whenever the state is not PlayerSequence
  (the accepted PowerOn case and every rejected case), the engine after the call equals the
  engine before it: state, round, sequence, press counter (and strict flag) are unchanged.
\<close>

theorem press_accepted:
  "(fst (press b g) \<longleftrightarrow> state g = powerOn \<or> state g = playerSequence)
   \<and> (state g \<noteq> playerSequence \<longrightarrow> snd (press b g) = g)"
  by (simp add: press_def getState_def Let_def)

theorem press_accepted_witness:
  "state (initial\<lparr>state := powerOn\<rparr>) \<noteq> playerSequence
   \<and> press 2 (initial\<lparr>state := powerOn\<rparr>) = (True, initial\<lparr>state := powerOn\<rparr>)
   \<and> state (initial\<lparr>state := comDemo, sequence := [2], round_n := 1\<rparr>) \<noteq> playerSequence
   \<and> press 2 (initial\<lparr>state := comDemo, sequence := [2], round_n := 1\<rparr>)
       = (False, initial\<lparr>state := comDemo, sequence := [2], round_n := 1\<rparr>)"
  using press_accepted [of 2 "initial\<lparr>state := powerOn\<rparr>"]
    press_accepted [of 2 "initial\<lparr>state := comDemo, sequence := [2], round_n := 1\<rparr>"]
  by (simp add: initial_def state_codes prod_eq_iff)

text \<open>
  Claim C1. For every call \<^verbatim>\<open>press(signal)\<close> in state PlayerSequence, with \<open>n\<close> the
  press counter after its increment: the call returns true; if the signal differs from
  \<^verbatim>\<open>sequence[n - 1]\<close> (an element, or \<^verbatim>\<open>undefined\<close> outside the array), the press
  counter becomes 0 and the state Mistake; if it matches and \<open>n\<close> is the length of the
  sequence, the state becomes AllCorrect and the counter is \<open>n\<close>; if it matches and \<open>n\<close>
  is less than the length, the state stays PlayerSequence and the counter is \<open>n\<close>. Nothing
  else changes, and a match implies \<open>n \<le> length\<close>, so the three cases are all there are.
\<close>

theorem press_playerSequence:
  assumes "state g = playerSequence"
  shows "(let n = pressN g + 1; len = int (length (sequence g));
              elem = js_index (sequence g) (n - 1) in
          fst (press b g)
          \<and> (elem \<noteq> Some b \<longrightarrow> snd (press b g) = g\<lparr>pressN := 0, state := mistake\<rparr>)
          \<and> (elem = Some b \<and> n = len \<longrightarrow>
               snd (press b g) = g\<lparr>pressN := n, state := allCorrect\<rparr>)
          \<and> (elem = Some b \<and> n < len \<longrightarrow> snd (press b g) = g\<lparr>pressN := n\<rparr>)
          \<and> (elem = Some b \<longrightarrow> n \<le> len))"
  using assms
  by (auto simp add: press_def getState_def Let_def setState_def state_codes js_index_def)

theorem press_playerSequence_witness:
  "state \<lparr>state = 5, round_n = 2, pressN = 0, strict = False, sequence = [2, 0]\<rparr>
     = playerSequence
   \<and> press 2 \<lparr>state = 5, round_n = 2, pressN = 0, strict = False, sequence = [2, 0]\<rparr>
     = (True, \<lparr>state = 5, round_n = 2, pressN = 1, strict = False, sequence = [2, 0]\<rparr>)
   \<and> state \<lparr>state = 5, round_n = 2, pressN = 1, strict = False, sequence = [2, 0]\<rparr>
     = playerSequence
   \<and> press 3 \<lparr>state = 5, round_n = 2, pressN = 1, strict = False, sequence = [2, 0]\<rparr>
     = (True, \<lparr>state = 6, round_n = 2, pressN = 0, strict = False, sequence = [2, 0]\<rparr>)
   \<and> press 0 \<lparr>state = 5, round_n = 2, pressN = 1, strict = False, sequence = [2, 0]\<rparr>
     = (True, \<lparr>state = 7, round_n = 2, pressN = 2, strict = False, sequence = [2, 0]\<rparr>)"
  using
    press_playerSequence
      [of "\<lparr>state = 5, round_n = 2, pressN = 0, strict = False, sequence = [2, 0]\<rparr>" 2]
    press_playerSequence
      [of "\<lparr>state = 5, round_n = 2, pressN = 1, strict = False, sequence = [2, 0]\<rparr>" 3]
    press_playerSequence
      [of "\<lparr>state = 5, round_n = 2, pressN = 1, strict = False, sequence = [2, 0]\<rparr>" 0]
  by (simp add: state_codes js_index_def prod_eq_iff)

section \<open>nextRound\<close>

lemma randomSignal_range:
  assumes "0 \<le> r" and "r < 1"
  shows "0 \<le> randomSignal r \<and> randomSignal r \<le> 3"
proof -
  have "0 \<le> r * (399 / 100)" using assms by simp
  moreover have "r * (399 / 100) < 4" using assms by simp
  ultimately show ?thesis
    unfolding randomSignal_def by (simp add: floor_less_iff le_floor_iff)
qed

lemma nextRound_eq:
  "nextRound r g =
     (if 20 < round_n g + 1 then g\<lparr>pressN := 0, state := win\<rparr>
      else g\<lparr>pressN := 0, round_n := round_n g + 1,
             sequence := sequence g @ [randomSignal r], state := comDemo\<rparr>)"
  by (simp add: nextRound_def Let_def setState_def MAXROUND_def state_codes)

lemma press_sequence: "sequence (snd (press b g)) = sequence g"
  by (simp add: press_def Let_def)

lemma togglePower_sequence:
  "sequence (togglePower g) = sequence g \<or> sequence (togglePower g) = []"
  by (simp add: togglePower_def reset_def)

text \<open>
  Claim C2. Every call of \<^verbatim>\<open>nextRound()\<close>, from any state, sets the press counter
  to 0; if round + 1 exceeds 20 it goes to Win and keeps round and sequence; otherwise it
  adds 1 to round, appends exactly one value to the sequence (one of 0, 1, 2, 3 when the
  random number is in [0, 1)) and goes to ComDemo. No other operation appends:
  \<^verbatim>\<open>press\<close>, \<^verbatim>\<open>toggleStrict\<close> and \<^verbatim>\<open>setState\<close> keep the sequence,
  \<^verbatim>\<open>togglePower\<close> keeps or empties it, \<^verbatim>\<open>reset\<close> empties it, and \<^verbatim>\<open>start\<close>
  is \<^verbatim>\<open>reset\<close> followed by a call of \<^verbatim>\<open>nextRound\<close>.
\<close>

theorem nextRound_spec:
  "pressN (nextRound r g) = 0
   \<and> (20 < round_n g + 1 \<longrightarrow> nextRound r g = g\<lparr>pressN := 0, state := win\<rparr>)
   \<and> (round_n g + 1 \<le> 20 \<longrightarrow>
        nextRound r g =
          g\<lparr>pressN := 0, round_n := round_n g + 1,
            sequence := sequence g @ [randomSignal r], state := comDemo\<rparr>)
   \<and> (0 \<le> r \<and> r < 1 \<longrightarrow> randomSignal r \<in> {0, 1, 2, 3})
   \<and> sequence (snd (press b g)) = sequence g
   \<and> sequence (toggleStrict g) = sequence g
   \<and> sequence (setState n g) = sequence g
   \<and> (sequence (togglePower g) = sequence g \<or> sequence (togglePower g) = [])
   \<and> sequence (reset g) = []
   \<and> start r g = nextRound r (reset g)"
proof -
  have sig: "0 \<le> r \<and> r < 1 \<longrightarrow> randomSignal r \<in> {0, 1, 2, 3}"
  proof
    assume "0 \<le> r \<and> r < 1"
    then have "0 \<le> randomSignal r \<and> randomSignal r \<le> 3"
      using randomSignal_range by blast
    then show "randomSignal r \<in> {0, 1, 2, 3}" by auto
  qed
  show ?thesis
    using sig press_sequence [of b g] togglePower_sequence [of g]
    by (simp add: nextRound_eq toggleStrict_def reset_def start_def)
qed

theorem nextRound_spec_witness:
  "20 < round_n \<lparr>state = 7, round_n = 20, pressN = 20, strict = True, sequence = [1, 3]\<rparr> + 1
   \<and> nextRound (3 / 10)
        \<lparr>state = 7, round_n = 20, pressN = 20, strict = True, sequence = [1, 3]\<rparr>
      = \<lparr>state = 8, round_n = 20, pressN = 0, strict = True, sequence = [1, 3]\<rparr>
   \<and> round_n \<lparr>state = 7, round_n = 2, pressN = 2, strict = True, sequence = [1, 3]\<rparr> + 1 \<le> 20
   \<and> (0 \<le> (3 / 10 :: real) \<and> (3 / 10 :: real) < 1)
   \<and> randomSignal (3 / 10) \<in> {0, 1, 2, 3}
   \<and> nextRound (3 / 10)
        \<lparr>state = 7, round_n = 2, pressN = 2, strict = True, sequence = [1, 3]\<rparr>
      = \<lparr>state = 4, round_n = 3, pressN = 0, strict = True, sequence = [1, 3, 1]\<rparr>"
  using
    nextRound_spec
      [of "3 / 10" "\<lparr>state = 7, round_n = 20, pressN = 20, strict = True, sequence = [1, 3]\<rparr>"]
    nextRound_spec
      [of "3 / 10" "\<lparr>state = 7, round_n = 2, pressN = 2, strict = True, sequence = [1, 3]\<rparr>"]
  by (simp add: state_codes randomSignal_def)

section \<open>The random signal\<close>

lemma randomSignal_eq_iff:
  "randomSignal r = k \<longleftrightarrow>
     real_of_int k * (100 / 399) \<le> r \<and> r < (real_of_int k + 1) * (100 / 399)"
  unfolding randomSignal_def floor_eq_iff by (auto simp add: field_simps)

text \<open>
  Claim C9 says that, for \<open>r\<close> uniform over [0, 1), the four signal values have preimages
  of equal probability under the map from \<open>r\<close> to the appended signal. The preimages of
  0, 1 and 2 under \<^verbatim>\<open>Math.floor(r * 3.99)\<close> are intervals of length 100/399, the
  preimage of 3 is the interval from 300/399 to 1, of length 99/399: a random number such
  as 0.751, in the last quarter of [0, 1), still gives signal 2.
\<close>

theorem randomSignal_preimages:
  "{r. 0 \<le> r \<and> r < 1 \<and> randomSignal r = 0} = {0 ..< 100 / 399}
   \<and> {r. 0 \<le> r \<and> r < 1 \<and> randomSignal r = 1} = {100 / 399 ..< 200 / 399}
   \<and> {r. 0 \<le> r \<and> r < 1 \<and> randomSignal r = 2} = {200 / 399 ..< 300 / 399}
   \<and> {r. 0 \<le> r \<and> r < 1 \<and> randomSignal r = 3} = {300 / 399 ..< 1}
   \<and> (1 - 300 / 399 :: real) < 100 / 399 - 0
   \<and> randomSignal (751 / 1000) = 2"
  by (auto simp add: randomSignal_eq_iff)

section \<open>Runs of the engine\<close>

lemma run_Nil [simp]: "run g [] = g"
  by (simp add: run_def)

lemma run_Cons [simp]: "run g (x # ops) = run (step g x) ops"
  by (simp add: run_def)

lemma run_append: "run g (ops @ ops') = run (run g ops) ops'"
  by (simp add: run_def)

subsection \<open>The sequence is as long as the round number\<close>

lemma len_round_initial: "len_round initial"
  by (simp add: len_round_def initial_def)

lemma len_round_step: "len_round g \<Longrightarrow> len_round (step g x)"
proof (cases x)
  case (Press b)
  assume "len_round g"
  then show ?thesis using Press
    by (simp add: len_round_def press_def Let_def)
qed (simp_all add: len_round_def nextRound_eq start_def reset_def togglePower_def
       toggleStrict_def)

lemma len_round_run: "len_round g \<Longrightarrow> len_round (run g ops)"
  by (induction ops arbitrary: g) (simp_all add: len_round_step)

text \<open>
  Claim C4. After every finite sequence of calls of the public operations (start,
  nextRound, press, togglePower, toggleStrict, setState) from the initial engine, the
  length of the sequence equals round. So it does right after every \<^verbatim>\<open>nextRound()\<close>
  call (the run \<open>ops @ [NextRound r]\<close>) and after whatever calls \<open>ops'\<close> follow it.
\<close>

theorem length_eq_round:
  "int (length (sequence (run initial ops))) = round_n (run initial ops)
   \<and> int (length (sequence (run initial (ops @ NextRound r # ops')))) =
       round_n (run initial (ops @ NextRound r # ops'))"
  using len_round_run [OF len_round_initial] by (simp add: len_round_def)

theorem length_eq_round_witness:
  "length (sequence (run initial
      [TogglePower, Start (9 / 10), SetState 5, Press 3, NextRound (3 / 10), ToggleStrict])) = 2
   \<and> round_n (run initial
      [TogglePower, Start (9 / 10), SetState 5, Press 3, NextRound (3 / 10), ToggleStrict]) = 2"
  using length_eq_round
    [of "[TogglePower, Start (9 / 10), SetState 5, Press 3]" "3 / 10" "[ToggleStrict]"]
  by (simp add: initial_def togglePower_def getState_def setState_def reset_def start_def
      nextRound_eq state_codes press_def js_index_def randomSignal_def toggleStrict_def)

subsection \<open>The press counter stays within the sequence\<close>

lemma pressN_ok_initial: "pressN_ok initial"
  by (simp add: pressN_ok_def initial_def)

lemma pressN_ok_press: "pressN_ok g \<Longrightarrow> pressN_ok (snd (press b g))"
  by (auto simp add: pressN_ok_def press_def Let_def js_index_def split: if_splits)

lemma pressN_ok_step: "pressN_ok g \<Longrightarrow> pressN_ok (step g x)"
  by (cases x)
    (simp_all add: pressN_ok_press,
     simp_all add: pressN_ok_def nextRound_eq start_def reset_def togglePower_def
       toggleStrict_def)

lemma pressN_ok_run: "pressN_ok g \<Longrightarrow> pressN_ok (run g ops)"
  by (induction ops arbitrary: g) (simp_all add: pressN_ok_step)

text \<open>
  Claim C7. After every finite sequence of calls of the public operations from the initial
  engine (that is, whenever an operation has returned), the press counter is at least 0 and
  at most the length of the sequence.
\<close>

theorem pressN_bounds:
  "0 \<le> pressN (run initial ops)
   \<and> pressN (run initial ops) \<le> int (length (sequence (run initial ops)))"
  using pressN_ok_run [OF pressN_ok_initial, of ops] by (simp add: pressN_ok_def)

theorem pressN_bounds_witness:
  "pressN (run initial [Start (9 / 10), SetState 5, Press 3, SetState 5, Press 3]) = 0
   \<and> pressN (run initial [Start (9 / 10), SetState 5, Press 3]) = 1
   \<and> length (sequence (run initial [Start (9 / 10), SetState 5, Press 3])) = 1"
  using pressN_bounds [of "[Start (9 / 10), SetState 5, Press 3, SetState 5, Press 3]"]
    pressN_bounds [of "[Start (9 / 10), SetState 5, Press 3]"]
  by (simp add: initial_def setState_def reset_def start_def nextRound_eq state_codes
      press_def getState_def js_index_def randomSignal_def)

subsection \<open>Twenty rounds\<close>

lemma round_nextRound:
  "round_n (nextRound r g) = (if 20 < round_n g + 1 then round_n g else round_n g + 1)"
  by (simp add: nextRound_eq)

lemma round_run_nextRounds:
  "round_n g \<le> 20 \<Longrightarrow>
   round_n (run g (map NextRound rs)) = min 20 (round_n g + int (length rs))"
proof (induction rs arbitrary: g)
  case Nil
  then show ?case by simp
next
  case (Cons r rs)
  have "round_n (nextRound r g) \<le> 20" using Cons.prems by (simp add: round_nextRound)
  from Cons.IH [OF this] show ?case using Cons.prems
    by (auto simp add: round_nextRound min_def)
qed

lemma state_run_nextRounds_snoc:
  "state (run g (map NextRound (rs @ [r]))) =
     (if 20 < round_n (run g (map NextRound rs)) + 1 then win else comDemo)"
  by (simp add: run_append nextRound_eq)

text \<open>
  Claim C5. From the initial engine (state PowerOff), one call of \<^verbatim>\<open>start()\<close> and
  then 20 calls of \<^verbatim>\<open>nextRound()\<close>, whatever the random numbers, end in state Win
  with round 20; and after any number \<open>k\<close> of the 21 calls round is at most MAXROUND.
\<close>

theorem start_then_twenty_rounds:
  assumes "length rs = 20"
  shows "state (run initial (Start r # map NextRound rs)) = win
    \<and> round_n (run initial (Start r # map NextRound rs)) = 20
    \<and> round_n (run initial (take k (Start r # map NextRound rs))) \<le> MAXROUND"
proof -
  have r1: "round_n (start r initial) = 1"
    by (simp add: start_def reset_def nextRound_eq)
  obtain rs' r' where rs: "rs = rs' @ [r']" and len': "length rs' = 19"
    using assms by (cases rs rule: rev_cases) auto
  have "round_n (run (start r initial) (map NextRound rs')) = 20"
    using round_run_nextRounds [of "start r initial" rs'] r1 len' by simp
  then have st: "state (run (start r initial) (map NextRound rs)) = win"
    unfolding rs state_run_nextRounds_snoc by simp
  have rd: "round_n (run (start r initial) (map NextRound rs)) = 20"
    using round_run_nextRounds [of "start r initial" rs] r1 assms by simp
  have bound: "round_n (run initial (take k (Start r # map NextRound rs))) \<le> MAXROUND"
  proof (cases k)
    case 0
    then show ?thesis by (simp add: initial_def MAXROUND_def)
  next
    case (Suc j)
    have "round_n (run (start r initial) (map NextRound (take j rs))) \<le> 20"
      using round_run_nextRounds [of "start r initial" "take j rs"] r1 by simp
    then show ?thesis using Suc by (simp add: take_map MAXROUND_def)
  qed
  show ?thesis using st rd bound by simp
qed

theorem start_then_twenty_rounds_witness:
  "length (replicate 20 (1 / 2 :: real)) = 20
   \<and> state (run initial (Start (1 / 2) # map NextRound (replicate 20 (1 / 2)))) = 8
   \<and> round_n (run initial (Start (1 / 2) # map NextRound (replicate 20 (1 / 2)))) = 20
   \<and> round_n (run initial (take 7 (Start (1 / 2) # map NextRound (replicate 20 (1 / 2)))))
       \<le> 20"
  using start_then_twenty_rounds [of "replicate 20 (1 / 2)" "1 / 2" 7]
  by (simp add: win_def MAXROUND_def)

end
